theory Spec2Isabelle
  imports Complex_Main "HOL-Library.Sublist"
begin

section \<open>The reviews subgraph: data and resolvers (schema.py)\<close>

text \<open>
  \<^verbatim>\<open>
  @strawberry.type
  class Review:
      id: int
      body: str
      product_id: strawberry.Private[str]
  \<close>
  The field \<open>id\<close> is written \<open>id_Review\<close>, since \<open>id\<close> is the identity function of HOL.
  A Python \<open>int\<close> is unbounded, hence \<open>int\<close>.
\<close>

record Review =
  id_Review :: int
  body :: string
  product_id :: string

text \<open>
  \<^verbatim>\<open>
  reviews = [
      Review(id=1, body=f"A review for Apollo Federation", product_id="apollo-federation"),
      Review(id=2, body=f"A review for Apollo Studio", product_id="apollo-studio"),
  ]
  \<close>
\<close>

definition reviews :: "Review list" where
  "reviews =
    [\<lparr>id_Review = 1, body = ''A review for Apollo Federation'',
      product_id = ''apollo-federation''\<rparr>,
     \<lparr>id_Review = 2, body = ''A review for Apollo Studio'',
      product_id = ''apollo-studio''\<rparr>]"

text \<open>
  \<^verbatim>\<open>
  @strawberry.federation.type(keys=["id"])
  class Product(ProductItf):
      id: strawberry.ID
      reviews_count: int
      reviews_score: float = strawberry.federation.field(override="products")
      reviews: list[Review] = strawberry.field(resolver=get_reviews)
  \<close>
  \<open>strawberry.ID\<close> is a new name for \<open>str\<close>. The field \<open>reviews\<close> is not stored: it is
  computed by the resolver \<open>get_reviews\<close> below. The source applies no arithmetic to
  \<open>reviews_score\<close>; the float is carried as the decimal its literal denotes (the decimal
  Python prints it back as), which identifies a finite float uniquely.
\<close>

record Product =
  id_Product :: string
  reviews_count :: int
  reviews_score :: real

text \<open>
  \<^verbatim>\<open>
  def get_reviews(root: "Product") -> list[Review]:
      return list(filter(lambda r: r.product_id == root.id, reviews))
  \<close>
  Python's \<open>filter\<close> walks the list front to back and yields the elements on which the
  predicate holds; it is written out as the loop it is.
\<close>

primrec filter_py :: "('a \<Rightarrow> bool) \<Rightarrow> 'a list \<Rightarrow> 'a list" where
  "filter_py f [] = []"
| "filter_py f (x # xs) = (if f x then x # filter_py f xs else filter_py f xs)"

definition get_reviews :: "Product \<Rightarrow> Review list" where
  "get_reviews root' = filter_py (\<lambda>r. product_id r = id_Product root') reviews"

text \<open>
  \<^verbatim>\<open>
  @classmethod
  def resolve_reference(cls, id: strawberry.ID):
      return Product(id=id, reviews_count=3, reviews_score=4.6)
  \<close>
\<close>

definition resolve_reference :: "string \<Rightarrow> Product" where
  "resolve_reference k = \<lparr>id_Product = k, reviews_count = 3, reviews_score = 4.6\<rparr>"

text \<open>
  \<^verbatim>\<open>
  @strawberry.field
  def review(self, id: int) -> Review | None:
      return next((r for r in reviews if r.id == id), None)
  \<close>
  The generator expression yields, in order, the reviews whose id is the argument;
  \<open>next\<close> with a default takes its first element, or the default \<open>None\<close> when the
  generator is exhausted at once.
\<close>

primrec next_py :: "('a \<Rightarrow> bool) \<Rightarrow> 'a list \<Rightarrow> 'a option" where
  "next_py f [] = None"
| "next_py f (x # xs) = (if f x then Some x else next_py f xs)"

definition review :: "int \<Rightarrow> Review option" where
  "review i = next_py (\<lambda>r. id_Review r = i) reviews"


section \<open>The schema as strawberry derives it from the declarations (schema.py)\<close>

text \<open>
  The class \<open>Review\<close> is declared with three annotated attributes, the last one wrapped in
  \<open>strawberry.Private\<close>. The declaration is kept as data: attribute name and annotation,
  in the order of the class body.
\<close>

datatype py_type = T_int | T_str

datatype annotation = Plain py_type | Private py_type

definition Review_annotations :: "(string \<times> annotation) list" where
  "Review_annotations =
    [(''id'', Plain T_int), (''body'', Plain T_str), (''product_id'', Private T_str)]"

text \<open>
  The rule of the library (strawberry, which is not part of this repository): an
  attribute annotated \<open>strawberry.Private[...]\<close> stays an attribute of the Python object
  and is left out of the GraphQL type; every other attribute becomes a field. The names
  \<open>id\<close> and \<open>body\<close> have no underscore, so the library's camel-casing of field names
  leaves them as they are.
\<close>

fun is_private :: "annotation \<Rightarrow> bool" where
  "is_private (Private t) = True"
| "is_private (Plain t) = False"

definition schema_fields :: "(string \<times> annotation) list \<Rightarrow> string list" where
  "schema_fields decl = map fst (filter_py (\<lambda>(n, a). \<not> is_private a) decl)"

datatype gql_value = IntValue int | StringValue string

datatype gql_error = FieldUndefined string

text \<open>Reading an attribute of a \<open>Review\<close> object by name; all three exist on the object.\<close>

definition getattr_Review :: "Review \<Rightarrow> string \<Rightarrow> gql_value option" where
  "getattr_Review r n =
    (if n = ''id'' then Some (IntValue (id_Review r))
     else if n = ''body'' then Some (StringValue (body r))
     else if n = ''product_id'' then Some (StringValue (product_id r))
     else None)"

text \<open>
  One selected field of a \<open>Review\<close>: \<open>__typename\<close> is answered with the type's name, a
  field of the GraphQL type with the attribute's value, and any other name is rejected
  by validation.
\<close>

definition select_field :: "Review \<Rightarrow> string \<Rightarrow> gql_error + gql_value" where
  "select_field r n =
    (if n = ''__typename'' then Inr (StringValue ''Review'')
     else if n \<in> set (schema_fields Review_annotations) then
       (case getattr_Review r n of
          Some v \<Rightarrow> Inr v
        | None \<Rightarrow> Inl (FieldUndefined n))
     else Inl (FieldUndefined n))"

text \<open>
  A selection set on a \<open>Review\<close> is a list of (response key, field name): an alias may
  rename any field in the response. The response object is the list of (response key,
  value), or the first validation error.
\<close>

fun select_Review :: "Review \<Rightarrow> (string \<times> string) list \<Rightarrow> gql_error + (string \<times> gql_value) list" where
  "select_Review r [] = Inr []"
| "select_Review r ((k, n) # sel) =
    (case select_field r n of
       Inl e \<Rightarrow> Inl e
     | Inr v \<Rightarrow>
        (case select_Review r sel of
           Inl e \<Rightarrow> Inl e
         | Inr obj \<Rightarrow> Inr ((k, v) # obj)))"


section \<open>Tracing bootstrap (tracing.py)\<close>

text \<open>
  The process environment \<open>os.environ\<close> is a dictionary from names to strings;
  \<open>os.environ.get(name)\<close> is \<open>None\<close> for a name that is not set.
\<close>

type_synonym environ = "string \<rightharpoonup> string"

text \<open>
  \<open>os.environ.get("APOLLO_OTEL_EXPORTER_PORT", 9411)\<close> is the string of the environment
  when the name is set and the integer default otherwise, so the port is a value of
  either type. An f-string formats a string as itself and an integer in decimal.
\<close>

datatype py_value = PyStr string | PyInt int

definition digit_char :: "nat \<Rightarrow> char" where
  "digit_char d = ''0123456789'' ! d"

fun digits :: "nat \<Rightarrow> string" where
  "digits n = (if n < 10 then [digit_char n] else digits (n div 10) @ [digit_char (n mod 10)])"

declare digits.simps [simp del]

definition str_int :: "int \<Rightarrow> string" where
  "str_int i = (if i < 0 then CHR ''-'' # digits (nat (- i)) else digits (nat i))"

fun format_py :: "py_value \<Rightarrow> string" where
  "format_py (PyStr s) = s"
| "format_py (PyInt i) = str_int i"

datatype error = AssertionError

datatype exporter = ZipkinExporter string | OTLPSpanExporter string

datatype span_processor = SimpleSpanProcessor exporter | BatchSpanProcessor exporter

datatype resource_key = SERVICE_NAME

record TracerProvider =
  resource :: "(resource_key \<times> string) list"
  span_processors :: "span_processor list"

definition add_span_processor :: "TracerProvider \<Rightarrow> span_processor \<Rightarrow> TracerProvider" where
  "add_span_processor provider sp = provider\<lparr>span_processors := span_processors provider @ [sp]\<rparr>"

datatype extension = OpenTelemetryExtension

text \<open>
  What the two modules mutate at start-up, as one state: the routes of the Starlette
  application, the extension list of the schema, the process-wide tracer provider
  (\<open>trace.set_tracer_provider\<close>), whether the application has been instrumented, and the
  lines printed. The handler of a route is a function from the GraphQL request to the
  response.
\<close>

record ('q, 'r) server =
  routes :: "(string \<times> ('q \<Rightarrow> 'r)) list"
  schema_extensions :: "extension list"
  tracer_provider :: "TracerProvider option"
  instrumented :: bool
  stdout :: "string list"

definition print :: "string \<Rightarrow> ('q, 'r) server \<Rightarrow> ('q, 'r) server" where
  "print line st = st\<lparr>stdout := stdout st @ [line]\<rparr>"

text \<open>
  \<^verbatim>\<open>
  def setup_tracing(schema, app):
      resource = Resource(attributes={SERVICE_NAME: "reviews"})
      provider = TracerProvider(resource=resource)
      tracer_type = os.environ.get("APOLLO_OTEL_EXPORTER_TYPE")
      assert tracer_type in {"zipkin", "collector"}
      if tracer_type == "zipkin":
          host = os.environ.get("APOLLO_OTEL_EXPORTER_HOST", "localhost")
          port = os.environ.get("APOLLO_OTEL_EXPORTER_PORT", 9411)
          endpoint = f"http://{host}:{port}/api/v2/spans"
          zipkin_exporter = ZipkinExporter(endpoint=endpoint)
          span_processor = SimpleSpanProcessor(zipkin_exporter)
          provider.add_span_processor(span_processor)
          print("Tracing enabled with Zipkin exporter")
      if tracer_type == "collector":
          host = os.environ.get("APOLLO_OTEL_EXPORTER_HOST", "localhost")
          port = os.environ.get("APOLLO_OTEL_EXPORTER_PORT", 9411)
          endpoint = f"http://{host}:{port}/v1/traces"
          otlp_exporter = OTLPSpanExporter(endpoint=endpoint)
          span_processor = BatchSpanProcessor(otlp_exporter)
          provider.add_span_processor(span_processor)
          print("Tracing enabled with Collector exporter")
      trace.set_tracer_provider(provider)
      schema.extensions.append(OpenTelemetryExtension)
      StarletteInstrumentor().instrument_app(app)
  \<close>
  The failing \<open>assert\<close> is the error \<open>AssertionError\<close> (assertions are enabled, as
  they are unless Python is started with \<open>-O\<close>). The constructors of the
  exporters and processors are those of the OpenTelemetry library; they are kept as
  constructors that record their argument.
\<close>

definition get_host :: "environ \<Rightarrow> string" where
  "get_host env =
    (case env ''APOLLO_OTEL_EXPORTER_HOST'' of None \<Rightarrow> ''localhost'' | Some h \<Rightarrow> h)"

definition get_port :: "environ \<Rightarrow> py_value" where
  "get_port env =
    (case env ''APOLLO_OTEL_EXPORTER_PORT'' of None \<Rightarrow> PyInt 9411 | Some p \<Rightarrow> PyStr p)"

definition zipkin_branch ::
  "environ \<Rightarrow> TracerProvider \<times> ('q, 'r) server \<Rightarrow> TracerProvider \<times> ('q, 'r) server" where
  "zipkin_branch env = (\<lambda>(provider, st).
    (let host = get_host env;
         port = get_port env;
         endpoint = ''http://'' @ host @ '':'' @ format_py port @ ''/api/v2/spans'';
         zipkin_exporter = ZipkinExporter endpoint;
         span_processor = SimpleSpanProcessor zipkin_exporter
     in (add_span_processor provider span_processor,
         print ''Tracing enabled with Zipkin exporter'' st)))"

definition collector_branch ::
  "environ \<Rightarrow> TracerProvider \<times> ('q, 'r) server \<Rightarrow> TracerProvider \<times> ('q, 'r) server" where
  "collector_branch env = (\<lambda>(provider, st).
    (let host = get_host env;
         port = get_port env;
         endpoint = ''http://'' @ host @ '':'' @ format_py port @ ''/v1/traces'';
         otlp_exporter = OTLPSpanExporter endpoint;
         span_processor = BatchSpanProcessor otlp_exporter
     in (add_span_processor provider span_processor,
         print ''Tracing enabled with Collector exporter'' st)))"

definition setup_tracing :: "environ \<Rightarrow> ('q, 'r) server \<Rightarrow> error + ('q, 'r) server" where
  "setup_tracing env st =
    (let provider = \<lparr>resource = [(SERVICE_NAME, ''reviews'')], span_processors = []\<rparr>;
         tracer_type = env ''APOLLO_OTEL_EXPORTER_TYPE''
     in if tracer_type \<notin> {Some ''zipkin'', Some ''collector''} then Inl AssertionError
        else
          (let ps1 = (if tracer_type = Some ''zipkin''
                      then zipkin_branch env (provider, st) else (provider, st));
               ps2 = (if tracer_type = Some ''collector''
                      then collector_branch env ps1 else ps1)
           in Inr ((snd ps2)\<lparr>tracer_provider := Some (fst ps2),
                              schema_extensions := schema_extensions (snd ps2) @ [OpenTelemetryExtension],
                              instrumented := True\<rparr>)))"


section \<open>HTTP entry point (app.py)\<close>

text \<open>
  \<^verbatim>\<open>
  graphql_app = GraphQL(schema, graphiql=False)
  app = Starlette()
  app.add_route("/", graphql_app)
  app.add_route("/graphql", graphql_app)
  if os.environ.get("APOLLO_OTEL_EXPORTER_TYPE"):
      from tracing import setup_tracing
      setup_tracing(schema, app)
  \<close>
  The module body runs when the server imports the application, before any request is
  served; an exception there leaves no application. The GraphQL handler is the
  library's: it is the parameter \<open>graphql_app\<close>. The schema is created with
  \<open>extensions=[]\<close>. A value of \<open>os.environ.get\<close> is false in a condition when it is
  \<open>None\<close> or the empty string.
\<close>

definition Starlette :: "('q, 'r) server" where
  "Starlette = \<lparr>routes = [], schema_extensions = [], tracer_provider = None,
                 instrumented = False, stdout = []\<rparr>"

definition add_route :: "string \<Rightarrow> ('q \<Rightarrow> 'r) \<Rightarrow> ('q, 'r) server \<Rightarrow> ('q, 'r) server" where
  "add_route path' handler st = st\<lparr>routes := routes st @ [(path', handler)]\<rparr>"

definition truthy :: "string option \<Rightarrow> bool" where
  "truthy v = (case v of None \<Rightarrow> False | Some s \<Rightarrow> s \<noteq> [])"

definition app :: "environ \<Rightarrow> ('q \<Rightarrow> 'r) \<Rightarrow> error + ('q, 'r) server" where
  "app env graphql_app =
    (let st = Starlette;
         st = add_route ''/'' graphql_app st;
         st = add_route ''/graphql'' graphql_app st
     in if truthy (env ''APOLLO_OTEL_EXPORTER_TYPE'') then setup_tracing env st else Inr st)"

text \<open>
  Serving a request: the router takes the first route, in registration order, whose
  path is the path of the request, and hands the request to its handler. What the
  framework answers when no route matches is not looked at here.
\<close>

fun match_route :: "(string \<times> 'h) list \<Rightarrow> string \<Rightarrow> 'h option" where
  "match_route [] p = None"
| "match_route ((path', h) # rs) p = (if path' = p then Some h else match_route rs p)"

datatype http_error = NoRouteMatched

definition serve :: "('q, 'r) server \<Rightarrow> string \<Rightarrow> 'q \<Rightarrow> http_error + 'r" where
  "serve st p q =
    (case match_route (routes st) p of
       None \<Rightarrow> Inl NoRouteMatched
     | Some h \<Rightarrow> Inr (h q))"


section \<open>Properties of the resolvers\<close>

lemma filter_py_filter: "filter_py f xs = filter f xs"
  by (induction xs) simp_all

lemma next_py_find: "next_py f xs = find f xs"
  by (induction xs) simp_all

lemma next_py_None: "next_py f xs = None \<longleftrightarrow> (\<forall>x \<in> set xs. \<not> f x)"
  by (induction xs) simp_all

lemma next_py_Some:
  "next_py f xs = Some r \<longleftrightarrow>
     (\<exists>pre post. xs = pre @ r # post \<and> f r \<and> (\<forall>x \<in> set pre. \<not> f x))"
proof (induction xs)
  case Nil
  then show ?case by simp
next
  case (Cons a xs)
  show ?case
  proof (cases "f a")
    case True
    have "(\<exists>pre post. a # xs = pre @ r # post \<and> f r \<and> (\<forall>x \<in> set pre. \<not> f x)) \<longleftrightarrow> a = r"
    proof
      assume "\<exists>pre post. a # xs = pre @ r # post \<and> f r \<and> (\<forall>x \<in> set pre. \<not> f x)"
      then obtain pre post where e: "a # xs = pre @ r # post" and n: "\<forall>x \<in> set pre. \<not> f x"
        by blast
      show "a = r"
      proof (cases pre)
        case Nil
        with e show ?thesis by simp
      next
        case (Cons p ps)
        with e have "p = a" by simp
        with Cons n True show ?thesis by simp
      qed
    next
      assume "a = r"
      with True have "a # xs = [] @ r # xs \<and> f r \<and> (\<forall>x \<in> set []. \<not> f x)" by simp
      then show "\<exists>pre post. a # xs = pre @ r # post \<and> f r \<and> (\<forall>x \<in> set pre. \<not> f x)"
        by blast
    qed
    with True show ?thesis by simp
  next
    case False
    have "(\<exists>pre post. a # xs = pre @ r # post \<and> f r \<and> (\<forall>x \<in> set pre. \<not> f x)) \<longleftrightarrow>
          (\<exists>pre post. xs = pre @ r # post \<and> f r \<and> (\<forall>x \<in> set pre. \<not> f x))"
    proof
      assume "\<exists>pre post. a # xs = pre @ r # post \<and> f r \<and> (\<forall>x \<in> set pre. \<not> f x)"
      then obtain pre post where e: "a # xs = pre @ r # post" and fr: "f r"
        and n: "\<forall>x \<in> set pre. \<not> f x"
        by blast
      show "\<exists>pre post. xs = pre @ r # post \<and> f r \<and> (\<forall>x \<in> set pre. \<not> f x)"
      proof (cases pre)
        case Nil
        with e fr False show ?thesis by simp
      next
        case (Cons p ps)
        with e n fr have "xs = ps @ r # post \<and> f r \<and> (\<forall>x \<in> set ps. \<not> f x)" by simp
        then show ?thesis by blast
      qed
    next
      assume "\<exists>pre post. xs = pre @ r # post \<and> f r \<and> (\<forall>x \<in> set pre. \<not> f x)"
      then obtain pre post where e: "xs = pre @ r # post" and fr: "f r"
        and n: "\<forall>x \<in> set pre. \<not> f x"
        by blast
      with False have "a # xs = (a # pre) @ r # post \<and> f r \<and> (\<forall>x \<in> set (a # pre). \<not> f x)"
        by simp
      then show "\<exists>pre post. a # xs = pre @ r # post \<and> f r \<and> (\<forall>x \<in> set pre. \<not> f x)"
        by blast
    qed
    with False Cons.IH show ?thesis by simp
  qed
qed

lemma review_cases:
  "review i =
    (if i = 1 then Some \<lparr>id_Review = 1, body = ''A review for Apollo Federation'',
                         product_id = ''apollo-federation''\<rparr>
     else if i = 2 then Some \<lparr>id_Review = 2, body = ''A review for Apollo Studio'',
                              product_id = ''apollo-studio''\<rparr>
     else None)"
  by (simp add: review_def reviews_def)

lemma count_list_filter_py:
  "count_list (filter_py f xs) r = (if f r then count_list xs r else 0)"
  by (induction xs) auto


section \<open>Claims about the resolvers\<close>

text \<open>
  C1. For every integer id, the review lookup scans the fixed collection from the front
  and returns the first review whose id is the argument, or \<open>None\<close> when no review has
  that id; the result is always one of the two, never an error. The lookup is the
  library function \<open>find\<close>; it is \<open>None\<close> exactly when no review of the collection has
  the id; it is \<open>Some r\<close> exactly when \<open>r\<close> stands in the collection with the id and no
  review before it has the id. Looking up 1 gives the review with body
  "A review for Apollo Federation", looking up 999 gives \<open>None\<close>.
\<close>

theorem review_first_match:
  "review i = find (\<lambda>r. id_Review r = i) reviews
   \<and> (review i = None \<longleftrightarrow> (\<forall>r \<in> set reviews. id_Review r \<noteq> i))
   \<and> (\<forall>r. review i = Some r \<longleftrightarrow>
        (\<exists>pre post. reviews = pre @ r # post \<and> id_Review r = i
           \<and> (\<forall>x \<in> set pre. id_Review x \<noteq> i)))
   \<and> (\<exists>r. review 1 = Some r \<and> body r = ''A review for Apollo Federation'')
   \<and> review 999 = None"
proof -
  have a: "review i = find (\<lambda>r. id_Review r = i) reviews"
    by (simp add: review_def next_py_find)
  have b: "review i = None \<longleftrightarrow> (\<forall>r \<in> set reviews. id_Review r \<noteq> i)"
    by (simp add: review_def next_py_None)
  have c: "\<forall>r. review i = Some r \<longleftrightarrow>
        (\<exists>pre post. reviews = pre @ r # post \<and> id_Review r = i
           \<and> (\<forall>x \<in> set pre. id_Review x \<noteq> i))"
    unfolding review_def by (simp only: next_py_Some) simp
  have d: "\<exists>r. review 1 = Some r \<and> body r = ''A review for Apollo Federation''"
    by (simp add: review_cases)
  have e: "review 999 = None"
    by (simp add: review_cases)
  from a b c d e show ?thesis by blast
qed

theorem review_first_match_witness:
  "(3::int) \<notin> set (map id_Review reviews) \<and> review 3 = None
   \<and> review 2 = Some \<lparr>id_Review = 2, body = ''A review for Apollo Studio'',
                        product_id = ''apollo-studio''\<rparr>"
proof -
  have no3: "\<forall>r \<in> set reviews. id_Review r \<noteq> 3"
    by (simp add: reviews_def)
  from review_first_match [of 3]
  have "review 3 = None \<longleftrightarrow> (\<forall>r \<in> set reviews. id_Review r \<noteq> 3)"
    by (elim conjE)
  with no3 have r3: "review 3 = None" by simp
  from review_first_match [of 2]
  have "review 2 = find (\<lambda>r. id_Review r = 2) reviews"
    by (elim conjE)
  then have r2: "review 2 = Some \<lparr>id_Review = 2, body = ''A review for Apollo Studio'',
                                   product_id = ''apollo-studio''\<rparr>"
    by (simp add: reviews_def)
  from no3 r3 r2 show ?thesis by auto
qed

text \<open>
  C9. The seeded collection holds exactly two reviews, with ids 1 and 2, in this order;
  so the lookup of any integer other than 1 and 2 is \<open>None\<close>, and the lookup of 2 is the
  review with body "A review for Apollo Studio".
\<close>

theorem reviews_two_ids:
  "map id_Review reviews = [1, 2]
   \<and> (i \<notin> {1, 2} \<longrightarrow> review i = None)
   \<and> (\<exists>r. review 2 = Some r \<and> body r = ''A review for Apollo Studio'')"
  by (simp add: review_cases) (simp add: reviews_def)

theorem reviews_two_ids_witness:
  "(7::int) \<notin> {1, 2} \<and> review 7 = None"
  using reviews_two_ids [of 7] by simp

text \<open>
  C3. For every Product, \<open>get_reviews\<close> returns exactly the reviews of the collection
  whose \<open>product_id\<close> is the Product's id, in the order of the collection: the result is
  the collection filtered, it is a subsequence of the collection, a review is in it
  exactly when it is in the collection with that key, and as often. For a Product with
  id "apollo-federation" the result is the one review with that key.
\<close>

theorem get_reviews_filter:
  "get_reviews p = filter (\<lambda>r. product_id r = id_Product p) reviews
   \<and> subseq (get_reviews p) reviews
   \<and> (\<forall>r. r \<in> set (get_reviews p) \<longleftrightarrow> r \<in> set reviews \<and> product_id r = id_Product p)
   \<and> (\<forall>r. count_list (get_reviews p) r =
        (if product_id r = id_Product p then count_list reviews r else 0))
   \<and> (id_Product p = ''apollo-federation'' \<longrightarrow>
        get_reviews p = [\<lparr>id_Review = 1, body = ''A review for Apollo Federation'',
                          product_id = ''apollo-federation''\<rparr>])"
proof -
  have a: "get_reviews p = filter (\<lambda>r. product_id r = id_Product p) reviews"
    by (simp add: get_reviews_def filter_py_filter)
  have b: "subseq (get_reviews p) reviews"
    by (simp add: a)
  have c: "\<forall>r. r \<in> set (get_reviews p) \<longleftrightarrow> r \<in> set reviews \<and> product_id r = id_Product p"
    by (simp add: a)
  have d: "\<forall>r. count_list (get_reviews p) r =
        (if product_id r = id_Product p then count_list reviews r else 0)"
    by (simp add: get_reviews_def count_list_filter_py)
  have e: "id_Product p = ''apollo-federation'' \<longrightarrow>
        get_reviews p = [\<lparr>id_Review = 1, body = ''A review for Apollo Federation'',
                          product_id = ''apollo-federation''\<rparr>]"
    by (simp add: a reviews_def)
  from a b c d e show ?thesis by blast
qed

theorem get_reviews_filter_witness:
  "id_Product \<lparr>id_Product = ''apollo-federation'', reviews_count = 0, reviews_score = 0\<rparr>
     = ''apollo-federation''
   \<and> get_reviews \<lparr>id_Product = ''apollo-federation'', reviews_count = 0, reviews_score = 0\<rparr>
     = [\<lparr>id_Review = 1, body = ''A review for Apollo Federation'',
         product_id = ''apollo-federation''\<rparr>]"
proof -
  let ?p = "\<lparr>id_Product = ''apollo-federation'', reviews_count = 0, reviews_score = 0\<rparr>"
  have key: "id_Product ?p = ''apollo-federation''" by simp
  from get_reviews_filter [of ?p]
  have "id_Product ?p = ''apollo-federation'' \<longrightarrow>
        get_reviews ?p = [\<lparr>id_Review = 1, body = ''A review for Apollo Federation'',
                           product_id = ''apollo-federation''\<rparr>]"
    by (elim conjE)
  with key show ?thesis by blast
qed

text \<open>
  C2. For every key, any string at all, \<open>resolve_reference\<close> returns a Product with
  \<open>reviews_count\<close> 3 and \<open>reviews_score\<close> 4.6. It is a total function with no error
  result: it returns for every key.
\<close>

theorem resolve_reference_stub:
  "reviews_count (resolve_reference k) = 3 \<and> reviews_score (resolve_reference k) = 4.6"
  by (simp add: resolve_reference_def)

text \<open>
  C10. For every key, the Product returned by \<open>resolve_reference\<close> has exactly that key
  as its id, so \<open>get_reviews\<close> on it filters the collection on the key that was passed in.
\<close>

theorem resolve_reference_key:
  "id_Product (resolve_reference k) = k
   \<and> get_reviews (resolve_reference k) = filter (\<lambda>r. product_id r = k) reviews"
  by (simp add: resolve_reference_def get_reviews_def filter_py_filter)


section \<open>Properties of the start-up\<close>

lemma digits_9411: "digits 9411 = ''9411''"
  by (simp add: digits.simps digit_char_def)

lemma str_int_9411: "str_int 9411 = ''9411''"
  by (simp add: str_int_def digits_9411)

lemma setup_tracing_zipkin:
  assumes "env ''APOLLO_OTEL_EXPORTER_TYPE'' = Some ''zipkin''"
  shows "setup_tracing env st =
    Inr ((print ''Tracing enabled with Zipkin exporter'' st)
      \<lparr>tracer_provider := Some \<lparr>resource = [(SERVICE_NAME, ''reviews'')],
         span_processors = [SimpleSpanProcessor (ZipkinExporter
           (''http://'' @ get_host env @ '':'' @ format_py (get_port env) @ ''/api/v2/spans''))]\<rparr>,
       schema_extensions := schema_extensions st @ [OpenTelemetryExtension],
       instrumented := True\<rparr>)"
  unfolding setup_tracing_def Let_def assms
  by (simp add: zipkin_branch_def add_span_processor_def print_def)

lemma setup_tracing_collector:
  assumes "env ''APOLLO_OTEL_EXPORTER_TYPE'' = Some ''collector''"
  shows "setup_tracing env st =
    Inr ((print ''Tracing enabled with Collector exporter'' st)
      \<lparr>tracer_provider := Some \<lparr>resource = [(SERVICE_NAME, ''reviews'')],
         span_processors = [BatchSpanProcessor (OTLPSpanExporter
           (''http://'' @ get_host env @ '':'' @ format_py (get_port env) @ ''/v1/traces''))]\<rparr>,
       schema_extensions := schema_extensions st @ [OpenTelemetryExtension],
       instrumented := True\<rparr>)"
  unfolding setup_tracing_def Let_def assms
  by (simp add: collector_branch_def add_span_processor_def print_def)

lemma setup_tracing_other:
  assumes "env ''APOLLO_OTEL_EXPORTER_TYPE'' \<noteq> Some ''zipkin''"
    and "env ''APOLLO_OTEL_EXPORTER_TYPE'' \<noteq> Some ''collector''"
  shows "setup_tracing env st = Inl AssertionError"
  using assms by (simp add: setup_tracing_def)

lemma setup_tracing_routes:
  assumes "setup_tracing env st = Inr st'"
  shows "routes st' = routes st"
proof -
  let ?t = "env ''APOLLO_OTEL_EXPORTER_TYPE''"
  consider (z) "?t = Some ''zipkin''" | (c) "?t = Some ''collector''"
    | (o) "?t \<noteq> Some ''zipkin''" "?t \<noteq> Some ''collector''"
    by blast
  then show ?thesis
  proof cases
    case z
    show ?thesis
      using assms unfolding setup_tracing_zipkin [of env, OF z]
      by (auto simp: print_def)
  next
    case c
    show ?thesis
      using assms unfolding setup_tracing_collector [of env, OF c]
      by (auto simp: print_def)
  next
    case o
    show ?thesis
      using assms unfolding setup_tracing_other [of env, OF o]
      by simp
  qed
qed

lemma app_unfold:
  "app env g =
    (if truthy (env ''APOLLO_OTEL_EXPORTER_TYPE'')
     then setup_tracing env (add_route ''/graphql'' g (add_route ''/'' g Starlette))
     else Inr (add_route ''/graphql'' g (add_route ''/'' g Starlette)))"
  by (simp add: app_def Let_def)

lemma routes_initial:
  "routes (add_route ''/graphql'' g (add_route ''/'' g Starlette)) = [(''/'', g), (''/graphql'', g)]"
  by (simp add: add_route_def Starlette_def)

lemma app_routes:
  assumes "app env g = Inr st"
  shows "routes st = [(''/'', g), (''/graphql'', g)]"
proof (cases "truthy (env ''APOLLO_OTEL_EXPORTER_TYPE'')")
  case True
  with assms have "setup_tracing env (add_route ''/graphql'' g (add_route ''/'' g Starlette)) = Inr st"
    by (simp add: app_unfold)
  then have "routes st = routes (add_route ''/graphql'' g (add_route ''/'' g Starlette))"
    by (rule setup_tracing_routes)
  then show ?thesis by (simp add: routes_initial)
next
  case False
  with assms have "st = add_route ''/graphql'' g (add_route ''/'' g Starlette)"
    by (simp add: app_unfold)
  then show ?thesis by (simp add: routes_initial)
qed

lemma app_disabled:
  assumes "env ''APOLLO_OTEL_EXPORTER_TYPE'' = None \<or> env ''APOLLO_OTEL_EXPORTER_TYPE'' = Some ''''"
  shows "app env g = Inr \<lparr>routes = [(''/'', g), (''/graphql'', g)], schema_extensions = [],
            tracer_provider = None, instrumented = False, stdout = []\<rparr>"
proof -
  from assms have "\<not> truthy (env ''APOLLO_OTEL_EXPORTER_TYPE'')"
    by (auto simp: truthy_def)
  then show ?thesis
    by (simp add: app_unfold add_route_def Starlette_def)
qed

lemma app_zipkin:
  assumes "env ''APOLLO_OTEL_EXPORTER_TYPE'' = Some ''zipkin''"
  shows "app env g = Inr \<lparr>routes = [(''/'', g), (''/graphql'', g)],
            schema_extensions = [OpenTelemetryExtension],
            tracer_provider = Some \<lparr>resource = [(SERVICE_NAME, ''reviews'')],
              span_processors = [SimpleSpanProcessor (ZipkinExporter
                (''http://'' @ get_host env @ '':'' @ format_py (get_port env) @ ''/api/v2/spans''))]\<rparr>,
            instrumented = True,
            stdout = [''Tracing enabled with Zipkin exporter'']\<rparr>"
proof -
  from assms have "truthy (env ''APOLLO_OTEL_EXPORTER_TYPE'')"
    by (simp add: truthy_def)
  then have "app env g = setup_tracing env (add_route ''/graphql'' g (add_route ''/'' g Starlette))"
    by (simp add: app_unfold)
  also have "\<dots> = Inr ((print ''Tracing enabled with Zipkin exporter''
        (add_route ''/graphql'' g (add_route ''/'' g Starlette)))
      \<lparr>tracer_provider := Some \<lparr>resource = [(SERVICE_NAME, ''reviews'')],
         span_processors = [SimpleSpanProcessor (ZipkinExporter
           (''http://'' @ get_host env @ '':'' @ format_py (get_port env) @ ''/api/v2/spans''))]\<rparr>,
       schema_extensions := schema_extensions (add_route ''/graphql'' g (add_route ''/'' g Starlette))
          @ [OpenTelemetryExtension],
       instrumented := True\<rparr>)"
    using assms by (rule setup_tracing_zipkin)
  also have "\<dots> = Inr \<lparr>routes = [(''/'', g), (''/graphql'', g)],
            schema_extensions = [OpenTelemetryExtension],
            tracer_provider = Some \<lparr>resource = [(SERVICE_NAME, ''reviews'')],
              span_processors = [SimpleSpanProcessor (ZipkinExporter
                (''http://'' @ get_host env @ '':'' @ format_py (get_port env) @ ''/api/v2/spans''))]\<rparr>,
            instrumented = True,
            stdout = [''Tracing enabled with Zipkin exporter'']\<rparr>"
    by (simp add: print_def add_route_def Starlette_def)
  finally show ?thesis .
qed

lemma app_collector:
  assumes "env ''APOLLO_OTEL_EXPORTER_TYPE'' = Some ''collector''"
  shows "app env g = Inr \<lparr>routes = [(''/'', g), (''/graphql'', g)],
            schema_extensions = [OpenTelemetryExtension],
            tracer_provider = Some \<lparr>resource = [(SERVICE_NAME, ''reviews'')],
              span_processors = [BatchSpanProcessor (OTLPSpanExporter
                (''http://'' @ get_host env @ '':'' @ format_py (get_port env) @ ''/v1/traces''))]\<rparr>,
            instrumented = True,
            stdout = [''Tracing enabled with Collector exporter'']\<rparr>"
proof -
  from assms have "truthy (env ''APOLLO_OTEL_EXPORTER_TYPE'')"
    by (simp add: truthy_def)
  then have "app env g = setup_tracing env (add_route ''/graphql'' g (add_route ''/'' g Starlette))"
    by (simp add: app_unfold)
  also have "\<dots> = Inr ((print ''Tracing enabled with Collector exporter''
        (add_route ''/graphql'' g (add_route ''/'' g Starlette)))
      \<lparr>tracer_provider := Some \<lparr>resource = [(SERVICE_NAME, ''reviews'')],
         span_processors = [BatchSpanProcessor (OTLPSpanExporter
           (''http://'' @ get_host env @ '':'' @ format_py (get_port env) @ ''/v1/traces''))]\<rparr>,
       schema_extensions := schema_extensions (add_route ''/graphql'' g (add_route ''/'' g Starlette))
          @ [OpenTelemetryExtension],
       instrumented := True\<rparr>)"
    using assms by (rule setup_tracing_collector)
  also have "\<dots> = Inr \<lparr>routes = [(''/'', g), (''/graphql'', g)],
            schema_extensions = [OpenTelemetryExtension],
            tracer_provider = Some \<lparr>resource = [(SERVICE_NAME, ''reviews'')],
              span_processors = [BatchSpanProcessor (OTLPSpanExporter
                (''http://'' @ get_host env @ '':'' @ format_py (get_port env) @ ''/v1/traces''))]\<rparr>,
            instrumented = True,
            stdout = [''Tracing enabled with Collector exporter'']\<rparr>"
    by (simp add: print_def add_route_def Starlette_def)
  finally show ?thesis .
qed

lemma app_other:
  assumes "env ''APOLLO_OTEL_EXPORTER_TYPE'' = Some v" and "v \<noteq> ''''"
    and "v \<noteq> ''zipkin''" and "v \<noteq> ''collector''"
  shows "app env g = Inl AssertionError"
proof -
  from assms have "truthy (env ''APOLLO_OTEL_EXPORTER_TYPE'')"
    by (simp add: truthy_def)
  then have "app env g = setup_tracing env (add_route ''/graphql'' g (add_route ''/'' g Starlette))"
    by (simp add: app_unfold)
  also have "\<dots> = Inl AssertionError"
  proof (rule setup_tracing_other)
    from assms show "env ''APOLLO_OTEL_EXPORTER_TYPE'' \<noteq> Some ''zipkin''" by simp
    from assms show "env ''APOLLO_OTEL_EXPORTER_TYPE'' \<noteq> Some ''collector''" by simp
  qed
  finally show ?thesis .
qed

lemma default_endpoint:
  assumes "env ''APOLLO_OTEL_EXPORTER_HOST'' = None" and "env ''APOLLO_OTEL_EXPORTER_PORT'' = None"
  shows "''http://'' @ get_host env @ '':'' @ format_py (get_port env) @ path'
         = ''http://localhost:9411'' @ path'"
  by (simp add: get_host_def get_port_def assms str_int_9411)

lemma next_py_product_id_update:
  "next_py (\<lambda>r. id_Review r = i) (map (product_id_update f) rs)
     = map_option (product_id_update f) (next_py (\<lambda>r. id_Review r = i) rs)"
  by (induction rs) simp_all

lemma schema_fields_Review: "schema_fields Review_annotations = [''id'', ''body'']"
  by (simp add: schema_fields_def Review_annotations_def)

lemma select_field_cases:
  "select_field r n =
    (if n = ''__typename'' then Inr (StringValue ''Review'')
     else if n = ''id'' then Inr (IntValue (id_Review r))
     else if n = ''body'' then Inr (StringValue (body r))
     else Inl (FieldUndefined n))"
  by (auto simp: select_field_def schema_fields_Review getattr_Review_def)

lemma select_field_independent:
  assumes "id_Review r = id_Review r'" and "body r = body r'"
  shows "select_field r n = select_field r' n"
  by (simp add: select_field_cases assms)

lemma select_Review_independent:
  assumes "id_Review r = id_Review r'" and "body r = body r'"
  shows "select_Review r sel = select_Review r' sel"
proof (induction sel)
  case Nil
  show ?case by simp
next
  case (Cons kn sel)
  obtain k n where kn: "kn = (k, n)" by (cases kn)
  from assms have "select_field r n = select_field r' n"
    by (rule select_field_independent)
  with Cons.IH kn show ?case by (simp split: sum.splits)
qed


section \<open>Claims about the start-up\<close>

text \<open>
  C4. At start-up, when \<open>APOLLO_OTEL_EXPORTER_TYPE\<close> is not set or is the empty string,
  the tracing setup is skipped: the application has its two routes and nothing else has
  happened (no tracer provider, no schema extension, no instrumentation, nothing
  printed). When it is "zipkin" or "collector", start-up succeeds with a tracer provider
  holding one span processor around an exporter of the selected kind. For any other
  non-empty value start-up ends in \<open>AssertionError\<close>, so no application is left to
  serve requests.
\<close>

theorem app_exporter_type:
  "(env ''APOLLO_OTEL_EXPORTER_TYPE'' = None \<or> env ''APOLLO_OTEL_EXPORTER_TYPE'' = Some '''' \<longrightarrow>
      app env g = Inr \<lparr>routes = [(''/'', g), (''/graphql'', g)], schema_extensions = [],
                       tracer_provider = None, instrumented = False, stdout = []\<rparr>)
   \<and> (env ''APOLLO_OTEL_EXPORTER_TYPE'' = Some ''zipkin'' \<longrightarrow>
      (\<exists>st provider endpoint. app env g = Inr st \<and> tracer_provider st = Some provider
         \<and> span_processors provider = [SimpleSpanProcessor (ZipkinExporter endpoint)]))
   \<and> (env ''APOLLO_OTEL_EXPORTER_TYPE'' = Some ''collector'' \<longrightarrow>
      (\<exists>st provider endpoint. app env g = Inr st \<and> tracer_provider st = Some provider
         \<and> span_processors provider = [BatchSpanProcessor (OTLPSpanExporter endpoint)]))
   \<and> (\<forall>v. env ''APOLLO_OTEL_EXPORTER_TYPE'' = Some v \<and> v \<noteq> '''' \<and> v \<noteq> ''zipkin''
          \<and> v \<noteq> ''collector'' \<longrightarrow> app env g = Inl AssertionError)"
proof (intro conjI impI allI)
  assume "env ''APOLLO_OTEL_EXPORTER_TYPE'' = None \<or> env ''APOLLO_OTEL_EXPORTER_TYPE'' = Some ''''"
  then show "app env g = Inr \<lparr>routes = [(''/'', g), (''/graphql'', g)], schema_extensions = [],
                       tracer_provider = None, instrumented = False, stdout = []\<rparr>"
    by (rule app_disabled)
next
  assume z: "env ''APOLLO_OTEL_EXPORTER_TYPE'' = Some ''zipkin''"
  show "\<exists>st provider endpoint. app env g = Inr st \<and> tracer_provider st = Some provider
         \<and> span_processors provider = [SimpleSpanProcessor (ZipkinExporter endpoint)]"
    unfolding app_zipkin [of env, OF z] by simp
next
  assume c: "env ''APOLLO_OTEL_EXPORTER_TYPE'' = Some ''collector''"
  show "\<exists>st provider endpoint. app env g = Inr st \<and> tracer_provider st = Some provider
         \<and> span_processors provider = [BatchSpanProcessor (OTLPSpanExporter endpoint)]"
    unfolding app_collector [of env, OF c] by simp
next
  fix v
  assume "env ''APOLLO_OTEL_EXPORTER_TYPE'' = Some v \<and> v \<noteq> '''' \<and> v \<noteq> ''zipkin''
          \<and> v \<noteq> ''collector''"
  then show "app env g = Inl AssertionError"
    by (elim conjE) (rule app_other)
qed

theorem app_exporter_type_witness:
  "app [''APOLLO_OTEL_EXPORTER_TYPE'' \<mapsto> ''jaeger''] Suc = Inl AssertionError
   \<and> app Map.empty Suc = Inr \<lparr>routes = [(''/'', Suc), (''/graphql'', Suc)], schema_extensions = [],
                       tracer_provider = None, instrumented = False, stdout = []\<rparr>
   \<and> (\<exists>st provider endpoint. app [''APOLLO_OTEL_EXPORTER_TYPE'' \<mapsto> ''zipkin''] Suc = Inr st
         \<and> tracer_provider st = Some provider
         \<and> span_processors provider = [SimpleSpanProcessor (ZipkinExporter endpoint)])
   \<and> (\<exists>st provider endpoint. app [''APOLLO_OTEL_EXPORTER_TYPE'' \<mapsto> ''collector''] Suc = Inr st
         \<and> tracer_provider st = Some provider
         \<and> span_processors provider = [BatchSpanProcessor (OTLPSpanExporter endpoint)])"
proof -
  let ?T = "''APOLLO_OTEL_EXPORTER_TYPE''"
  have j: "[?T \<mapsto> ''jaeger''] ?T = Some ''jaeger'' \<and> ''jaeger'' \<noteq> '''' \<and> ''jaeger'' \<noteq> ''zipkin''
          \<and> ''jaeger'' \<noteq> ''collector''"
    by simp
  have e: "(Map.empty :: environ) ?T = None \<or> (Map.empty :: environ) ?T = Some ''''"
    by simp
  have z: "[?T \<mapsto> ''zipkin''] ?T = Some ''zipkin''"
    by simp
  have c: "[?T \<mapsto> ''collector''] ?T = Some ''collector''"
    by simp
  from app_exporter_type [of "[?T \<mapsto> ''jaeger'']" Suc] j
  have 1: "app [?T \<mapsto> ''jaeger''] Suc = Inl AssertionError"
    by blast
  from app_exporter_type [of Map.empty Suc] e
  have 2: "app Map.empty Suc = Inr \<lparr>routes = [(''/'', Suc), (''/graphql'', Suc)],
              schema_extensions = [], tracer_provider = None, instrumented = False, stdout = []\<rparr>"
    by blast
  from app_exporter_type [of "[?T \<mapsto> ''zipkin'']" Suc] z
  have 3: "\<exists>st provider endpoint. app [?T \<mapsto> ''zipkin''] Suc = Inr st
         \<and> tracer_provider st = Some provider
         \<and> span_processors provider = [SimpleSpanProcessor (ZipkinExporter endpoint)]"
    by blast
  from app_exporter_type [of "[?T \<mapsto> ''collector'']" Suc] c
  have 4: "\<exists>st provider endpoint. app [?T \<mapsto> ''collector''] Suc = Inr st
         \<and> tracer_provider st = Some provider
         \<and> span_processors provider = [BatchSpanProcessor (OTLPSpanExporter endpoint)]"
    by blast
  from 1 2 3 4 show ?thesis by blast
qed

text \<open>
  C5. With the selector "zipkin" and neither \<open>APOLLO_OTEL_EXPORTER_HOST\<close> nor
  \<open>APOLLO_OTEL_EXPORTER_PORT\<close> set, the tracing setup succeeds from any state, and
  the provider it registers has exactly one span processor: a \<open>SimpleSpanProcessor\<close>
  (the synchronous one) around a Zipkin exporter whose endpoint is the string
  "http://localhost:9411/api/v2/spans"; the application started in that environment is
  in exactly this configuration.
\<close>

theorem zipkin_default_endpoint:
  assumes "env ''APOLLO_OTEL_EXPORTER_TYPE'' = Some ''zipkin''"
    and "env ''APOLLO_OTEL_EXPORTER_HOST'' = None"
    and "env ''APOLLO_OTEL_EXPORTER_PORT'' = None"
  shows "(\<exists>st'. setup_tracing env st = Inr st'
           \<and> tracer_provider st' = Some \<lparr>resource = [(SERVICE_NAME, ''reviews'')],
               span_processors = [SimpleSpanProcessor
                 (ZipkinExporter ''http://localhost:9411/api/v2/spans'')]\<rparr>)
     \<and> app env g = Inr \<lparr>routes = [(''/'', g), (''/graphql'', g)],
            schema_extensions = [OpenTelemetryExtension],
            tracer_provider = Some \<lparr>resource = [(SERVICE_NAME, ''reviews'')],
              span_processors = [SimpleSpanProcessor
                (ZipkinExporter ''http://localhost:9411/api/v2/spans'')]\<rparr>,
            instrumented = True,
            stdout = [''Tracing enabled with Zipkin exporter'']\<rparr>"
proof -
  have ep: "''http://'' @ get_host env @ '':'' @ format_py (get_port env) @ ''/api/v2/spans''
        = ''http://localhost:9411/api/v2/spans''"
    using default_endpoint [OF assms(2) assms(3), of "''/api/v2/spans''"] by simp
  have a: "\<exists>st'. setup_tracing env st = Inr st'
           \<and> tracer_provider st' = Some \<lparr>resource = [(SERVICE_NAME, ''reviews'')],
               span_processors = [SimpleSpanProcessor
                 (ZipkinExporter ''http://localhost:9411/api/v2/spans'')]\<rparr>"
    unfolding setup_tracing_zipkin [of env, OF assms(1)] ep by simp
  have b: "app env g = Inr \<lparr>routes = [(''/'', g), (''/graphql'', g)],
            schema_extensions = [OpenTelemetryExtension],
            tracer_provider = Some \<lparr>resource = [(SERVICE_NAME, ''reviews'')],
              span_processors = [SimpleSpanProcessor
                (ZipkinExporter ''http://localhost:9411/api/v2/spans'')]\<rparr>,
            instrumented = True,
            stdout = [''Tracing enabled with Zipkin exporter'']\<rparr>"
    unfolding app_zipkin [of env, OF assms(1)] ep by simp
  from a b show ?thesis by blast
qed

theorem zipkin_default_endpoint_witness:
  "app [''APOLLO_OTEL_EXPORTER_TYPE'' \<mapsto> ''zipkin''] Suc =
     Inr \<lparr>routes = [(''/'', Suc), (''/graphql'', Suc)],
            schema_extensions = [OpenTelemetryExtension],
            tracer_provider = Some \<lparr>resource = [(SERVICE_NAME, ''reviews'')],
              span_processors = [SimpleSpanProcessor
                (ZipkinExporter ''http://localhost:9411/api/v2/spans'')]\<rparr>,
            instrumented = True,
            stdout = [''Tracing enabled with Zipkin exporter'']\<rparr>"
proof -
  let ?env = "[''APOLLO_OTEL_EXPORTER_TYPE'' \<mapsto> ''zipkin'']"
  have t: "?env ''APOLLO_OTEL_EXPORTER_TYPE'' = Some ''zipkin''" by simp
  have h: "?env ''APOLLO_OTEL_EXPORTER_HOST'' = None" by simp
  have p: "?env ''APOLLO_OTEL_EXPORTER_PORT'' = None" by simp
  from zipkin_default_endpoint [of ?env, OF t h p, of Starlette Suc]
  show ?thesis by (elim conjE)
qed

text \<open>
  C6. With the selector "collector" and neither \<open>APOLLO_OTEL_EXPORTER_HOST\<close> nor
  \<open>APOLLO_OTEL_EXPORTER_PORT\<close> set, the tracing setup succeeds from any state, and
  the provider it registers has exactly one span processor: a \<open>BatchSpanProcessor\<close>
  (the batching one) around an OTLP exporter whose endpoint is the string
  "http://localhost:9411/v1/traces", with the same default host and the same default
  port 9411 as in the Zipkin case.
\<close>

theorem collector_default_endpoint:
  assumes "env ''APOLLO_OTEL_EXPORTER_TYPE'' = Some ''collector''"
    and "env ''APOLLO_OTEL_EXPORTER_HOST'' = None"
    and "env ''APOLLO_OTEL_EXPORTER_PORT'' = None"
  shows "(\<exists>st'. setup_tracing env st = Inr st'
           \<and> tracer_provider st' = Some \<lparr>resource = [(SERVICE_NAME, ''reviews'')],
               span_processors = [BatchSpanProcessor
                 (OTLPSpanExporter ''http://localhost:9411/v1/traces'')]\<rparr>)
     \<and> app env g = Inr \<lparr>routes = [(''/'', g), (''/graphql'', g)],
            schema_extensions = [OpenTelemetryExtension],
            tracer_provider = Some \<lparr>resource = [(SERVICE_NAME, ''reviews'')],
              span_processors = [BatchSpanProcessor
                (OTLPSpanExporter ''http://localhost:9411/v1/traces'')]\<rparr>,
            instrumented = True,
            stdout = [''Tracing enabled with Collector exporter'']\<rparr>"
proof -
  have ep: "''http://'' @ get_host env @ '':'' @ format_py (get_port env) @ ''/v1/traces''
        = ''http://localhost:9411/v1/traces''"
    using default_endpoint [OF assms(2) assms(3), of "''/v1/traces''"] by simp
  have a: "\<exists>st'. setup_tracing env st = Inr st'
           \<and> tracer_provider st' = Some \<lparr>resource = [(SERVICE_NAME, ''reviews'')],
               span_processors = [BatchSpanProcessor
                 (OTLPSpanExporter ''http://localhost:9411/v1/traces'')]\<rparr>"
    unfolding setup_tracing_collector [of env, OF assms(1)] ep by simp
  have b: "app env g = Inr \<lparr>routes = [(''/'', g), (''/graphql'', g)],
            schema_extensions = [OpenTelemetryExtension],
            tracer_provider = Some \<lparr>resource = [(SERVICE_NAME, ''reviews'')],
              span_processors = [BatchSpanProcessor
                (OTLPSpanExporter ''http://localhost:9411/v1/traces'')]\<rparr>,
            instrumented = True,
            stdout = [''Tracing enabled with Collector exporter'']\<rparr>"
    unfolding app_collector [of env, OF assms(1)] ep by simp
  from a b show ?thesis by blast
qed

theorem collector_default_endpoint_witness:
  "app [''APOLLO_OTEL_EXPORTER_TYPE'' \<mapsto> ''collector''] Suc =
     Inr \<lparr>routes = [(''/'', Suc), (''/graphql'', Suc)],
            schema_extensions = [OpenTelemetryExtension],
            tracer_provider = Some \<lparr>resource = [(SERVICE_NAME, ''reviews'')],
              span_processors = [BatchSpanProcessor
                (OTLPSpanExporter ''http://localhost:9411/v1/traces'')]\<rparr>,
            instrumented = True,
            stdout = [''Tracing enabled with Collector exporter'']\<rparr>"
proof -
  let ?env = "[''APOLLO_OTEL_EXPORTER_TYPE'' \<mapsto> ''collector'']"
  have t: "?env ''APOLLO_OTEL_EXPORTER_TYPE'' = Some ''collector''" by simp
  have h: "?env ''APOLLO_OTEL_EXPORTER_HOST'' = None" by simp
  have p: "?env ''APOLLO_OTEL_EXPORTER_PORT'' = None" by simp
  from collector_default_endpoint [of ?env, OF t h p, of Starlette Suc]
  show ?thesis by (elim conjE)
qed

text \<open>
  C8. Whenever start-up succeeds, the routes "/" and "/graphql" are bound to the same
  GraphQL handler, so every request is accepted on both paths and gets the same
  response on both: the handler's response to it.
\<close>

theorem both_paths_same_handler:
  assumes "app env g = Inr st"
  shows "match_route (routes st) ''/'' = Some g
   \<and> match_route (routes st) ''/graphql'' = Some g
   \<and> serve st ''/'' q = Inr (g q)
   \<and> serve st ''/graphql'' q = serve st ''/'' q"
proof -
  from assms have r: "routes st = [(''/'', g), (''/graphql'', g)]"
    by (rule app_routes)
  show ?thesis
    by (simp add: serve_def r)
qed

theorem both_paths_same_handler_witness:
  "app [''APOLLO_OTEL_EXPORTER_TYPE'' \<mapsto> ''collector''] Suc \<noteq> Inl AssertionError
   \<and> (\<exists>st. app [''APOLLO_OTEL_EXPORTER_TYPE'' \<mapsto> ''collector''] Suc = Inr st
        \<and> serve st ''/graphql'' 4 = Inr 5 \<and> serve st ''/'' 4 = Inr 5)"
proof -
  let ?env = "[''APOLLO_OTEL_EXPORTER_TYPE'' \<mapsto> ''collector'']"
  have t: "?env ''APOLLO_OTEL_EXPORTER_TYPE'' = Some ''collector''" by simp
  obtain st where a: "app ?env Suc = Inr st"
    using app_collector [of ?env, OF t] by blast
  from both_paths_same_handler [OF a, of 4]
  have "serve st ''/graphql'' 4 = Inr 5 \<and> serve st ''/'' 4 = Inr 5"
    by simp
  with a show ?thesis by auto
qed


section \<open>Claim about the schema\<close>

text \<open>
  C7. The product key of a Review is not exposed: the GraphQL type Review has exactly
  the fields \<open>id\<close> and \<open>body\<close>; the only names a selection on a Review can resolve are
  those two and \<open>__typename\<close>; selecting \<open>product_id\<close> is rejected; and the response to
  any selection set, aliases included, is the same for two Reviews that agree on
  \<open>id\<close> and \<open>body\<close>, whatever their product keys are. The lookup by id does not read
  the key either: rewriting the product keys of the collection by any function changes
  nothing but the key of the review it finds. The key is read by \<open>get_reviews\<close> only,
  for the join.
\<close>

theorem Review_product_id_private:
  "schema_fields Review_annotations = [''id'', ''body'']
   \<and> (\<forall>v. select_field r n = Inr v \<longrightarrow> n \<in> {''__typename'', ''id'', ''body''})
   \<and> select_field r ''product_id'' = Inl (FieldUndefined ''product_id'')
   \<and> (id_Review r = id_Review r' \<and> body r = body r' \<longrightarrow>
        select_Review r sel = select_Review r' sel)
   \<and> next_py (\<lambda>r. id_Review r = i) (map (product_id_update f) reviews)
        = map_option (product_id_update f) (review i)"
proof (intro conjI allI impI)
  show "schema_fields Review_annotations = [''id'', ''body'']"
    by (rule schema_fields_Review)
next
  fix v
  assume "select_field r n = Inr v"
  then show "n \<in> {''__typename'', ''id'', ''body''}"
    by (simp add: select_field_cases split: if_splits)
next
  show "select_field r ''product_id'' = Inl (FieldUndefined ''product_id'')"
    by (simp add: select_field_cases)
next
  assume "id_Review r = id_Review r' \<and> body r = body r'"
  then show "select_Review r sel = select_Review r' sel"
    by (elim conjE) (rule select_Review_independent)
next
  show "next_py (\<lambda>r. id_Review r = i) (map (product_id_update f) reviews)
        = map_option (product_id_update f) (review i)"
    by (simp add: review_def next_py_product_id_update)
qed

theorem Review_product_id_private_witness:
  "select_Review \<lparr>id_Review = 1, body = ''A review for Apollo Federation'',
                   product_id = ''apollo-federation''\<rparr>
      [(''a'', ''id''), (''product_id'', ''body''), (''t'', ''__typename'')]
   = select_Review \<lparr>id_Review = 1, body = ''A review for Apollo Federation'',
                     product_id = ''something else''\<rparr>
      [(''a'', ''id''), (''product_id'', ''body''), (''t'', ''__typename'')]
   \<and> select_Review \<lparr>id_Review = 1, body = ''A review for Apollo Federation'',
                     product_id = ''something else''\<rparr>
      [(''a'', ''id''), (''product_id'', ''body''), (''t'', ''__typename'')]
     = Inr [(''a'', IntValue 1), (''product_id'', StringValue ''A review for Apollo Federation''),
            (''t'', StringValue ''Review'')]
   \<and> select_field \<lparr>id_Review = 1, body = ''A review for Apollo Federation'',
                     product_id = ''apollo-federation''\<rparr> ''body''
     = Inr (StringValue ''A review for Apollo Federation'')"
proof -
  let ?r = "\<lparr>id_Review = 1, body = ''A review for Apollo Federation'',
             product_id = ''apollo-federation''\<rparr>"
  let ?r' = "\<lparr>id_Review = 1, body = ''A review for Apollo Federation'',
              product_id = ''something else''\<rparr>"
  let ?sel = "[(''a'', ''id''), (''product_id'', ''body''), (''t'', ''__typename'')]"
  have agree: "id_Review ?r = id_Review ?r' \<and> body ?r = body ?r'" by simp
  from Review_product_id_private [of ?r "''body''" ?r' ?sel] agree
  have 1: "select_Review ?r ?sel = select_Review ?r' ?sel" by blast
  have 2: "select_Review ?r' ?sel
     = Inr [(''a'', IntValue 1), (''product_id'', StringValue ''A review for Apollo Federation''),
            (''t'', StringValue ''Review'')]"
    by (simp add: select_field_cases)
  have 3: "select_field ?r ''body'' = Inr (StringValue ''A review for Apollo Federation'')"
    by (simp add: select_field_cases)
  from 1 2 3 show ?thesis by blast
qed

end
